theory Spec2Isabelle
  imports Main
begin

section \<open>JavaScript values and error objects\<close>

text \<open>
  Request fields that may be absent (\<open>undefined\<close>) are \<open>string option\<close>.  Object ids
  are natural numbers.  A thrown error is a value: every handler returns
  \<open>js_error + result\<close> together with the database it leaves behind.

  A request is what a handler sees after the parsers of \<open>app.js\<close> have run:
  \<open>req.cookies\<close> is an object; \<open>req.body\<close> is an object when a parser has read a
  body and is absent (\<open>undefined\<close>) otherwise; the fields the handlers read are
  strings or absent.  Requests are handled one at a time, and the operations of the
  database itself do not fail.
\<close>

record js_error =
  statusCode :: "nat option"
  message :: string

text \<open>
  Modelled from the spec: \<open>utils/ApiError.js\<close> is not among the sources; the spec
  (section 7) describes a thrown error object carrying a status code and a message.
\<close>

definition ApiError :: "nat \<Rightarrow> string \<Rightarrow> js_error" where
  "ApiError code msg = \<lparr>statusCode = Some code, message = msg\<rparr>"

text \<open>A built-in \<open>TypeError\<close>, or an error of a library: it has no \<open>statusCode\<close>.\<close>

definition TypeError :: "string \<Rightarrow> js_error" where
  "TypeError msg = \<lparr>statusCode = None, message = msg\<rparr>"

text \<open>Truthiness of a possibly absent string: \<open>undefined\<close> and \<open>""\<close> are falsy.\<close>

definition truthy :: "string option \<Rightarrow> bool" where
  "truthy v = (case v of None \<Rightarrow> False | Some s \<Rightarrow> s \<noteq> [])"

text \<open>\<open>a || b\<close> on possibly absent strings.\<close>

definition js_or :: "string option \<Rightarrow> string option \<Rightarrow> string option" where
  "js_or a b = (if truthy a then a else b)"

text \<open>\<open>msg || dflt\<close> on strings.\<close>

definition or_default :: "string \<Rightarrow> string \<Rightarrow> string" where
  "or_default msg dflt = (if msg = [] then dflt else msg)"

section \<open>The data model\<close>

text \<open>
  Modelled from the spec: \<open>models/user.model.js\<close> is not among the sources.  The
  fields are those the controllers read and write: credentials (the stored password),
  profile fields, one refresh token (absent after \<open>$unset\<close>) and the watch
  history, an ordered list of video ids.
\<close>

record user =
  uid :: nat
  username :: string
  email :: string
  fullName :: string
  avatar :: string
  coverImage :: string
  password :: string
  refreshToken :: "string option"
  watchHistory :: "nat list"

text \<open>A user document after \<open>.select("-password -refreshToken")\<close>.\<close>

record user_view =
  v_id :: nat
  v_username :: string
  v_email :: string
  v_fullName :: string
  v_avatar :: string
  v_coverImage :: string
  v_watchHistory :: "nat list"

definition select_user :: "user \<Rightarrow> user_view" where
  "select_user u = \<lparr>v_id = uid u, v_username = username u, v_email = email u,
     v_fullName = fullName u, v_avatar = avatar u, v_coverImage = coverImage u,
     v_watchHistory = watchHistory u\<rparr>"

text \<open>
  Modelled from the spec: \<open>models/video.model.js\<close> is not among the sources; a
  video is a content document with an id and an owner (a user id).
\<close>

record video =
  vid :: nat
  title :: string
  owner :: nat

text \<open>
  The database: each collection is the list of its documents in the order the engine
  scans them (\<open>findOne\<close> "returns first matched document").
\<close>

record db =
  users :: "user list"
  videos :: "video list"

definition findById :: "user list \<Rightarrow> nat option \<Rightarrow> user option" where
  "findById us i = (case i of None \<Rightarrow> None | Some k \<Rightarrow> find (\<lambda>u. uid u = k) us)"

text \<open>
  \<open>User.findOne({$or: [{username}, {email}]})\<close>: the first document whose username
  or email equals the given one.  An absent (\<open>undefined\<close>) value matches no
  document, since every user document has both fields.
\<close>

definition findOne_or :: "user list \<Rightarrow> string option \<Rightarrow> string option \<Rightarrow> user option" where
  "findOne_or us uname mail =
     find (\<lambda>u. uname = Some (username u) \<or> mail = Some (email u)) us"

text \<open>Writing a document back: the document with that \<open>_id\<close> is replaced.\<close>

definition save :: "user \<Rightarrow> user list \<Rightarrow> user list" where
  "save u us = map (\<lambda>x. if uid x = uid u then u else x) us"

section \<open>The environment: libraries and services outside the repository\<close>

datatype secret = ACCESS_TOKEN_SECRET | REFRESH_TOKEN_SECRET

record upload_response =
  url :: string

text \<open>
  \<open>jwt_verify\<close> is \<open>jwt.verify(token, secret)\<close>: it throws, or returns the payload,
  of which the handlers read \<open>_id\<close> only (absent when the payload has none).
  \<open>generateAccessToken\<close>, \<open>generateRefreshToken\<close> and \<open>isPasswordCorrect\<close> are
  the methods of the user model, which is not among the sources; they are parameters.
  \<open>hashPassword\<close> is what the model stores for a given password, \<open>new_id\<close> the id
  the database gives a new document.  \<open>uploader_upload\<close> and \<open>fs_unlinkSync\<close> are
  the cloud upload and the file removal; \<open>cwd\<close> and \<open>normalizeString\<close> belong to
  Node's \<open>path\<close> module.
\<close>

record env =
  jwt_verify :: "string \<Rightarrow> secret \<Rightarrow> js_error + nat option"
  generateAccessToken :: "user \<Rightarrow> js_error + string"
  generateRefreshToken :: "user \<Rightarrow> js_error + string"
  isPasswordCorrect :: "user \<Rightarrow> string option \<Rightarrow> js_error + bool"
  hashPassword :: "string option \<Rightarrow> js_error + string"
  new_id :: "user list \<Rightarrow> nat"
  uploader_upload :: "string \<Rightarrow> js_error + upload_response"
  fs_unlinkSync :: "string \<Rightarrow> js_error option"
  cwd :: string
  normalizeString :: "string \<Rightarrow> bool \<Rightarrow> string"

section \<open>Requests and responses\<close>

datatype http_method = GET | POST | PATCH | PUT | DELETE

record req_body =
  b_fullName :: "string option"
  b_email :: "string option"
  b_username :: "string option"
  b_password :: "string option"
  b_refreshToken :: "string option"

record request =
  rmethod :: http_method
  rpath :: "string list"
  cookies_accessToken :: "string option"
  cookies_refreshToken :: "string option"
  header_Authorization :: "string option"
  body :: "req_body option"
  files_avatar :: "string list"
  files_coverImage :: "string list"
  req_user :: "user_view option"

text \<open>
  The fields that \<open>const {fullName, email, username, password} = req.body\<close> binds
  when the body is there; an absent body binds nothing (the destructuring throws).
\<close>

definition body_fullName :: "request \<Rightarrow> string option" where
  "body_fullName req = (case body req of None \<Rightarrow> None | Some b \<Rightarrow> b_fullName b)"

definition body_email :: "request \<Rightarrow> string option" where
  "body_email req = (case body req of None \<Rightarrow> None | Some b \<Rightarrow> b_email b)"

definition body_username :: "request \<Rightarrow> string option" where
  "body_username req = (case body req of None \<Rightarrow> None | Some b \<Rightarrow> b_username b)"

definition body_password :: "request \<Rightarrow> string option" where
  "body_password req = (case body req of None \<Rightarrow> None | Some b \<Rightarrow> b_password b)"

definition cannot_destructure :: "string \<Rightarrow> js_error" where
  "cannot_destructure field =
     TypeError (''Cannot destructure property '' @ [CHR 0x27] @ field @ [CHR 0x27]
                @ '' of 'req.body' as it is undefined.'')"

record cookie_options =
  httpOnly :: bool
  secure :: bool

record video_owner =
  o_id :: nat
  o_fullName :: string
  o_username :: string
  o_avatar :: string

record watched_video =
  w_id :: nat
  w_title :: string
  w_owner :: "video_owner option"

datatype payload =
    DUser user_view
  | DLogin "user_view option" string string
  | DTokens string string
  | DCleared string
  | DVideos "watched_video list"

text \<open>\<open>new ApiResponse(statusCode, data, message)\<close>; the class spells its flag \<open>sucess\<close>.\<close>

record api_response =
  r_statusCode :: nat
  r_data :: payload
  r_message :: string
  sucess :: bool

definition ApiResponse :: "nat \<Rightarrow> payload \<Rightarrow> string \<Rightarrow> api_response" where
  "ApiResponse code d msg =
     \<lparr>r_statusCode = code, r_data = d, r_message = msg, sucess = (code < 400)\<rparr>"

record response =
  status :: nat
  cookie :: "(string \<times> string \<times> cookie_options) list"
  clearCookie :: "(string \<times> cookie_options) list"
  json :: api_response

section \<open>Token rotation\<close>

definition generate_failed :: js_error where
  "generate_failed =
     ApiError 500 ''Something went wrong while generating referesh and access token''"

text \<open>
  \<open>generateAccessAndRefereshTokens\<close>: everything is inside one \<open>try\<close>, so a
  missing user (a \<open>TypeError\<close> on \<open>null\<close>) and a failing signer both end as the
  500 error; the document is written only after both tokens exist.
\<close>

definition generateAccessAndRefereshTokens ::
  "env \<Rightarrow> nat \<Rightarrow> db \<Rightarrow> (js_error + string \<times> string) \<times> db" where
  "generateAccessAndRefereshTokens e userId d =
     (case findById (users d) (Some userId) of
        None \<Rightarrow> (Inl generate_failed, d)
      | Some u \<Rightarrow>
          (case generateAccessToken e u of
             Inl _ \<Rightarrow> (Inl generate_failed, d)
           | Inr accessToken \<Rightarrow>
               (case generateRefreshToken e u of
                  Inl _ \<Rightarrow> (Inl generate_failed, d)
                | Inr newToken \<Rightarrow>
                    (Inr (accessToken, newToken),
                     d\<lparr>users := save (u\<lparr>refreshToken := Some newToken\<rparr>) (users d)\<rparr>))))"

definition options :: cookie_options where
  "options = \<lparr>httpOnly = True, secure = True\<rparr>"

section \<open>refreshAccessToken and logoutUser\<close>

text \<open>The body of the \<open>try\<close> block of \<open>refreshAccessToken\<close>.\<close>

definition refresh_try :: "env \<Rightarrow> string \<Rightarrow> db \<Rightarrow> (js_error + response) \<times> db" where
  "refresh_try e incomingRefreshToken d =
     (case jwt_verify e incomingRefreshToken REFRESH_TOKEN_SECRET of
        Inl err \<Rightarrow> (Inl err, d)
      | Inr decoded_id \<Rightarrow>
          (case findById (users d) decoded_id of
             None \<Rightarrow> (Inl (ApiError 401 ''Invalid refresh token''), d)
           | Some u \<Rightarrow>
               if Some incomingRefreshToken \<noteq> refreshToken u
               then (Inl (ApiError 401 ''Refresh token is expired or used''), d)
               else
                 (case generateAccessAndRefereshTokens e (uid u) d of
                    (Inl err, d') \<Rightarrow> (Inl err, d')
                  | (Inr (accessToken, newRefreshToken), d') \<Rightarrow>
                      (Inr \<lparr>status = 200,
                            cookie = [(''accessToken'', accessToken, options),
                                      (''refreshToken'', newRefreshToken, options)],
                            clearCookie = [],
                            json = ApiResponse 200 (DTokens accessToken newRefreshToken)
                                     ''Access token refreshed''\<rparr>, d'))))"

text \<open>
  \<open>req.cookies.refreshToken || req.body.refreshToken\<close>, evaluated before the
  \<open>try\<close> block: with a truthy cookie the body is not read; otherwise the read of
  \<open>refreshToken\<close> on an absent body throws a \<open>TypeError\<close>.
\<close>

definition incoming_token :: "request \<Rightarrow> js_error + string option" where
  "incoming_token req =
     (if truthy (cookies_refreshToken req) then Inr (cookies_refreshToken req)
      else
        (case body req of
           None \<Rightarrow>
             Inl (TypeError ''Cannot read properties of undefined (reading 'refreshToken')'')
         | Some b \<Rightarrow> Inr (b_refreshToken b)))"

definition refreshAccessToken :: "env \<Rightarrow> request \<Rightarrow> db \<Rightarrow> (js_error + response) \<times> db" where
  "refreshAccessToken e req d =
     (case incoming_token req of
        Inl err \<Rightarrow> (Inl err, d)
      | Inr None \<Rightarrow> (Inl (ApiError 401 ''unauthorized request''), d)
      | Inr (Some tok) \<Rightarrow>
          if tok = [] then (Inl (ApiError 401 ''unauthorized request''), d)
          else
            (case refresh_try e tok d of
               (Inl err, d') \<Rightarrow>
                 (Inl (ApiError 401 (or_default (message err) ''Invalid refresh token'')), d')
             | (Inr res, d') \<Rightarrow> (Inr res, d')))"

text \<open>
  \<open>logoutUser\<close>: \<open>$unset\<close> removes the field from the document of \<open>req.user._id\<close>
  (no document is touched when none has that id); both cookies are cleared.  Without
  \<open>req.user\<close> the read of \<open>req.user._id\<close> throws.
\<close>

definition unset_refreshToken :: "nat \<Rightarrow> user list \<Rightarrow> user list" where
  "unset_refreshToken k us = map (\<lambda>x. if uid x = k then x\<lparr>refreshToken := None\<rparr> else x) us"

definition logoutUser :: "env \<Rightarrow> request \<Rightarrow> db \<Rightarrow> (js_error + response) \<times> db" where
  "logoutUser e req d =
     (case req_user req of
        None \<Rightarrow> (Inl (TypeError ''Cannot read properties of undefined (reading '_id')''), d)
      | Some v \<Rightarrow>
          (Inr \<lparr>status = 200, cookie = [],
                clearCookie = [(''accessToken'', options), (''refreshToken'', options)],
                json = ApiResponse 200 (DCleared ''cleared refresh token'') ''User logged Out''\<rparr>,
           d\<lparr>users := unset_refreshToken (v_id v) (users d)\<rparr>))"

section \<open>String helpers of JavaScript and Node\<close>

text \<open>
  Characters are code units below 256.  \<open>trim\<close> strips white space and line
  terminators: tab, line feed, vertical tab, form feed, carriage return, space and the
  no-break space.
\<close>

definition is_js_space :: "char \<Rightarrow> bool" where
  "is_js_space c = (c \<in> set [CHR 0x09, CHR 0x0A, CHR 0x0B, CHR 0x0C, CHR 0x0D, CHR 0x20, CHR 0xA0])"

definition js_trim :: "string \<Rightarrow> string" where
  "js_trim s = rev (dropWhile is_js_space (rev (dropWhile is_js_space s)))"

text \<open>\<open>field?.trim() === ""\<close>: an absent field is not blank.\<close>

definition blank_field :: "string option \<Rightarrow> bool" where
  "blank_field f = (case f of None \<Rightarrow> False | Some s \<Rightarrow> js_trim s = [])"

text \<open>\<open>toLowerCase\<close> on code units below 256: A-Z and the Latin-1 capitals.\<close>

definition lower_char :: "char \<Rightarrow> char" where
  "lower_char c =
     (let n = (of_char c :: nat)
      in if (65 \<le> n \<and> n \<le> 90) \<or> (192 \<le> n \<and> n \<le> 222 \<and> n \<noteq> 215)
         then char_of (n + 32) else c)"

definition toLowerCase :: "string \<Rightarrow> string" where
  "toLowerCase s = map lower_char s"

text \<open>\<open>s.replace(pat, rep)\<close> with a string pattern: the first occurrence only.\<close>

fun js_replace :: "string \<Rightarrow> string \<Rightarrow> string \<Rightarrow> string" where
  "js_replace pat rep [] = (if pat = [] then rep else [])"
| "js_replace pat rep (c # cs) =
     (if take (length pat) (c # cs) = pat then rep @ drop (length pat) (c # cs)
      else c # js_replace pat rep cs)"

definition invalid_path_arg :: "string \<Rightarrow> js_error" where
  "invalid_path_arg received =
     TypeError (''The '' @ [CHR 0x22] @ ''paths[0]'' @ [CHR 0x22]
                @ '' argument must be of type string. Received '' @ received)"

text \<open>
  \<open>path.resolve(p)\<close> with one argument, after Node's posix implementation (Node is
  not part of the repository): the argument is validated first, and \<open>null\<close> or
  \<open>undefined\<close> throws a \<open>TypeError\<close>; a relative or empty path is resolved against
  the working directory; the answer is \<open>"/"\<close> followed by the normalized path when
  absolute, and never the empty string.
\<close>

definition is_absolute :: "string \<Rightarrow> bool" where
  "is_absolute p = (case p of [] \<Rightarrow> False | c # _ \<Rightarrow> c = CHR ''/'')"

definition resolve_string :: "env \<Rightarrow> string \<Rightarrow> string" where
  "resolve_string e p =
     (let (resolvedPath, resolvedAbsolute) =
            (if is_absolute p then (p @ ''/'', True)
             else
               (let relative = (if p = [] then [] else p @ ''/'')
                in if cwd e = [] then (relative, False)
                   else (cwd e @ ''/'' @ relative, is_absolute (cwd e))));
          normalized = normalizeString e resolvedPath (\<not> resolvedAbsolute)
      in if resolvedAbsolute then ''/'' @ normalized
         else if normalized \<noteq> [] then normalized else ''.'')"

definition path_resolve :: "env \<Rightarrow> string \<Rightarrow> string option \<Rightarrow> js_error + string" where
  "path_resolve e received p =
     (case p of None \<Rightarrow> Inl (invalid_path_arg received) | Some s \<Rightarrow> Inr (resolve_string e s))"

section \<open>uploadOnCloudinary\<close>

text \<open>
  \<open>null\<close> for an empty path; the response of the upload; when the upload throws, the
  local file is removed and the answer is \<open>null\<close>, unless the removal itself throws.
\<close>

definition uploadOnCloudinary :: "env \<Rightarrow> string \<Rightarrow> js_error + upload_response option" where
  "uploadOnCloudinary e localFilePath =
     (if localFilePath = [] then Inr None
      else
        (case uploader_upload e localFilePath of
           Inr res \<Rightarrow> Inr (Some res)
         | Inl _ \<Rightarrow>
             (case fs_unlinkSync e localFilePath of
                Some err \<Rightarrow> Inl err
              | None \<Rightarrow> Inr None)))"

section \<open>registerUser\<close>

record new_user =
  n_fullName :: "string option"
  n_avatar :: string
  n_coverImage :: string
  n_email :: "string option"
  n_password :: "string option"
  n_username :: string

text \<open>
  Modelled from the spec: \<open>User.create\<close> belongs to the user model, which is not
  among the sources.  A user is created on registration with the stored (hashed)
  password, no refresh token and an empty watch history, and is appended to the
  collection.  An absent full name or email is stored as the empty string.
\<close>

definition User_create :: "env \<Rightarrow> new_user \<Rightarrow> db \<Rightarrow> (js_error + user) \<times> db" where
  "User_create e n d =
     (case hashPassword e (n_password n) of
        Inl err \<Rightarrow> (Inl err, d)
      | Inr hashed \<Rightarrow>
          (let u = \<lparr>uid = new_id e (users d), username = n_username n,
                     email = (case n_email n of None \<Rightarrow> [] | Some m \<Rightarrow> m),
                     fullName = (case n_fullName n of None \<Rightarrow> [] | Some f \<Rightarrow> f),
                     avatar = n_avatar n, coverImage = n_coverImage n, password = hashed,
                     refreshToken = None, watchHistory = []\<rparr>
           in (Inr u, d\<lparr>users := users d @ [u]\<rparr>)))"

definition first_path :: "string list \<Rightarrow> string option" where
  "first_path fs = (case fs of [] \<Rightarrow> None | p # _ \<Rightarrow> Some p)"

text \<open>
  The part of \<open>registerUser\<close> after both paths are resolved: the guard on the avatar
  path, the two uploads, the guard on the avatar upload, then the creation.
  \<open>username.toLowerCase()\<close> throws on an absent username.
\<close>

definition register_upload_create ::
  "env \<Rightarrow> request \<Rightarrow> string \<Rightarrow> string \<Rightarrow> db \<Rightarrow> (js_error + response) \<times> db" where
  "register_upload_create e req absoluteAvatarPath absoluteCoverImagePath d =
     (if absoluteAvatarPath = [] then (Inl (ApiError 400 ''Avatar file path is required''), d)
      else
        (case uploadOnCloudinary e absoluteAvatarPath of
           Inl err \<Rightarrow> (Inl err, d)
         | Inr avatar_res \<Rightarrow>
             (case uploadOnCloudinary e absoluteCoverImagePath of
                Inl err \<Rightarrow> (Inl err, d)
              | Inr cover_res \<Rightarrow>
                  (case avatar_res of
                     None \<Rightarrow> (Inl (ApiError 400 ''Avatar file is not uploaded''), d)
                   | Some av \<Rightarrow>
                       (case body_username req of
                          None \<Rightarrow>
                            (Inl (TypeError
                               ''Cannot read properties of undefined (reading 'toLowerCase')''), d)
                        | Some uname \<Rightarrow>
                            (case User_create e
                                    \<lparr>n_fullName = body_fullName req, n_avatar = url av,
                                     n_coverImage = (case cover_res of None \<Rightarrow> [] | Some c \<Rightarrow> url c),
                                     n_email = body_email req, n_password = body_password req,
                                     n_username = toLowerCase uname\<rparr> d of
                               (Inl err, d') \<Rightarrow> (Inl err, d')
                             | (Inr u, d') \<Rightarrow>
                                 (case findById (users d') (Some (uid u)) of
                                    None \<Rightarrow>
                                      (Inl (ApiError 500
                                         ''Something went wrong while registering the user''), d')
                                  | Some created \<Rightarrow>
                                      (Inr \<lparr>status = 201, cookie = [], clearCookie = [],
                                            json = ApiResponse 200 (DUser (select_user created))
                                                     ''User registered Successfully''\<rparr>, d'))))))))"

text \<open>
  \<open>registerUser\<close>: the destructuring of \<open>req.body\<close>, the non-empty check, the
  duplicate check, then \<open>path.resolve\<close> on the avatar path (\<open>null\<close> without a
  file) and on the cover image path (\<open>undefined\<close> without a file), both before the
  guard on the avatar path.
\<close>

definition registerUser :: "env \<Rightarrow> request \<Rightarrow> db \<Rightarrow> (js_error + response) \<times> db" where
  "registerUser e req d =
     (if body req = None then (Inl (cannot_destructure ''fullName''), d)
      else if list_ex blank_field
           [body_fullName req, body_email req, body_username req, body_password req]
      then (Inl (ApiError 400 ''All fields are required''), d)
      else
        (case findOne_or (users d) (body_username req) (body_email req) of
           Some existedUser \<Rightarrow>
             (Inl (ApiError 409 ''User with email or username already exists''), d)
         | None \<Rightarrow>
             (case path_resolve e ''null'' (first_path (files_avatar req)) of
                Inl err \<Rightarrow> (Inl err, d)
              | Inr absoluteAvatarPath \<Rightarrow>
                  (case path_resolve e ''undefined'' (first_path (files_coverImage req)) of
                     Inl err \<Rightarrow> (Inl err, d)
                   | Inr absoluteCoverImagePath \<Rightarrow>
                       register_upload_create e req absoluteAvatarPath absoluteCoverImagePath d))))"

section \<open>loginUser\<close>

text \<open>
  \<open>loginUser\<close> destructures \<open>req.body\<close> first.  It reads \<open>user._id\<close> (for a log
  line) before it tests \<open>!user\<close>, so an unknown user ends in a \<open>TypeError\<close> and the
  404 branch is never taken.
\<close>

definition loginUser :: "env \<Rightarrow> request \<Rightarrow> db \<Rightarrow> (js_error + response) \<times> db" where
  "loginUser e req d =
     (if body req = None then (Inl (cannot_destructure ''email''), d)
      else if \<not> truthy (body_username req) \<and> \<not> truthy (body_email req)
      then (Inl (ApiError 400 ''username or email is required''), d)
      else
        (case findOne_or (users d) (body_username req) (body_email req) of
           None \<Rightarrow> (Inl (TypeError ''Cannot read properties of null (reading '_id')''), d)
         | Some u \<Rightarrow>
             (case isPasswordCorrect e u (body_password req) of
                Inl err \<Rightarrow> (Inl err, d)
              | Inr isPasswordValid \<Rightarrow>
                  if \<not> isPasswordValid
                  then (Inl (ApiError 401 ''Invalid user credentials, Wrong Password!!!!!!''), d)
                  else
                    (case generateAccessAndRefereshTokens e (uid u) d of
                       (Inl err, d') \<Rightarrow> (Inl err, d')
                     | (Inr (accessToken, newToken), d') \<Rightarrow>
                         (Inr \<lparr>status = 200,
                               cookie = [(''accessToken'', accessToken, options),
                                         (''refreshToken'', newToken, options)],
                               clearCookie = [],
                               json = ApiResponse 200
                                        (DLogin (map_option select_user
                                                   (findById (users d') (Some (uid u))))
                                           accessToken newToken)
                                        ''User logged In Successfully''\<rparr>, d')))))"

section \<open>verifyJWT\<close>

text \<open>
  The token is the \<open>accessToken\<close> cookie, or else the \<open>Authorization\<close> header with
  the first \<open>"Bearer "\<close> removed.  Every throw inside the \<open>try\<close>, the handler's own
  included, is rethrown as a 401 error.  On success \<open>req.user\<close> is set and \<open>next()\<close>
  is called.
\<close>

definition access_token :: "request \<Rightarrow> string option" where
  "access_token req =
     js_or (cookies_accessToken req)
           (map_option (js_replace ''Bearer '' []) (header_Authorization req))"

definition verify_try :: "env \<Rightarrow> request \<Rightarrow> db \<Rightarrow> js_error + user_view" where
  "verify_try e req d =
     (case access_token req of
        None \<Rightarrow> Inl (ApiError 401 ''Unauthorized request'')
      | Some token \<Rightarrow>
          if token = [] then Inl (ApiError 401 ''Unauthorized request'')
          else
            (case jwt_verify e token ACCESS_TOKEN_SECRET of
               Inl err \<Rightarrow> Inl err
             | Inr decoded_id \<Rightarrow>
                 (case findById (users d) decoded_id of
                    None \<Rightarrow> Inl (ApiError 401 ''Invalid Access Token'')
                  | Some u \<Rightarrow> Inr (select_user u))))"

definition verifyJWT :: "env \<Rightarrow> request \<Rightarrow> db \<Rightarrow> js_error + request" where
  "verifyJWT e req d =
     (case verify_try e req d of
        Inl err \<Rightarrow> Inl (ApiError 401 (or_default (message err) ''Invalid access token''))
      | Inr v \<Rightarrow> Inr (req\<lparr>req_user := Some v\<rparr>))"

section \<open>getWatchHistory\<close>

text \<open>
  The inner pipeline of the lookup: the owner of a video is looked up among the users,
  projected to three fields, and the first match (if any) becomes the \<open>owner\<close> field.
\<close>

definition project_owner :: "user \<Rightarrow> video_owner" where
  "project_owner u =
     \<lparr>o_id = uid u, o_fullName = fullName u, o_username = username u, o_avatar = avatar u\<rparr>"

definition with_owner :: "user list \<Rightarrow> video \<Rightarrow> watched_video" where
  "with_owner us v =
     \<lparr>w_id = vid v, w_title = title v,
      w_owner = (case filter (\<lambda>u. uid u = owner v) us of
                   [] \<Rightarrow> None | u # _ \<Rightarrow> Some (project_owner u))\<rparr>"

text \<open>
  The \<open>$lookup\<close> stage with an array as local field, as the database engine (which is
  not part of the repository) evaluates it: the documents of the foreign collection whose
  \<open>_id\<close> is an element of the array, each one once, in the order in which the engine
  scans the foreign collection.  The array is used as a set of keys.
\<close>

definition lookup_watchHistory :: "db \<Rightarrow> user \<Rightarrow> watched_video list" where
  "lookup_watchHistory d u =
     map (with_owner (users d)) (filter (\<lambda>v. vid v \<in> set (watchHistory u)) (videos d))"

text \<open>
  \<open>getWatchHistory\<close>: \<open>$match\<close> on the id of \<open>req.user\<close>, the lookup on each
  matched user, and the answer is \<open>user[0].watchHistory\<close>, which throws when the
  aggregate is empty.
\<close>

definition getWatchHistory :: "env \<Rightarrow> request \<Rightarrow> db \<Rightarrow> (js_error + response) \<times> db" where
  "getWatchHistory e req d =
     (case req_user req of
        None \<Rightarrow> (Inl (TypeError ''Cannot read properties of undefined (reading '_id')''), d)
      | Some v \<Rightarrow>
          (case map (lookup_watchHistory d) (filter (\<lambda>u. uid u = v_id v) (users d)) of
             [] \<Rightarrow>
               (Inl (TypeError
                  ''Cannot read properties of undefined (reading 'watchHistory')''), d)
           | history # _ \<Rightarrow>
               (Inr \<lparr>status = 200, cookie = [], clearCookie = [],
                     json = ApiResponse 200 (DVideos history)
                              ''Watch history fetched successfully''\<rparr>, d)))"

section \<open>Handlers, routes and the application\<close>

text \<open>
  What a layer of the framework does with a request: it calls \<open>next()\<close> (with the
  request as it left it), calls \<open>next(err)\<close>, or sends a response.
\<close>

datatype outcome = Next request | NextErr js_error | Sent response

datatype step = CallNext request | Send response

type_synonym layer_fn = "request \<Rightarrow> db \<Rightarrow> outcome \<times> db"

text \<open>
  \<open>asyncHandler\<close>: the handler runs, and a rejection is passed to \<open>next\<close>.
\<close>

definition asyncHandler :: "(request \<Rightarrow> db \<Rightarrow> (js_error + step) \<times> db) \<Rightarrow> layer_fn" where
  "asyncHandler requestHandler req d =
     (case requestHandler req d of
        (Inl err, d') \<Rightarrow> (NextErr err, d')
      | (Inr (CallNext req'), d') \<Rightarrow> (Next req', d')
      | (Inr (Send res), d') \<Rightarrow> (Sent res, d'))"

text \<open>A controller ends by sending its response; the middleware ends by \<open>next()\<close>.\<close>

definition controller ::
  "(request \<Rightarrow> db \<Rightarrow> (js_error + response) \<times> db) \<Rightarrow> request \<Rightarrow> db \<Rightarrow> (js_error + step) \<times> db" where
  "controller h req d = (case h req d of (r, d') \<Rightarrow> (map_sum id Send r, d'))"

definition middleware ::
  "(request \<Rightarrow> db \<Rightarrow> js_error + request) \<Rightarrow> request \<Rightarrow> db \<Rightarrow> (js_error + step) \<times> db" where
  "middleware h req d = (map_sum id CallNext (h req d), d)"

datatype handler =
    VerifyJWT
  | UploadFields "string list"
  | UploadSingle string
  | RegisterUser
  | LoginUser
  | LogoutUser
  | RefreshAccessToken
  | ChangeCurrentPassword
  | GetCurrentUser
  | UpdateAccountDetails
  | UpdateUserAvatar
  | UpdateUserCoverImage
  | GetUserChannelProfile
  | GetWatchHistory

text \<open>The routes of the users router, in the order of their registration.\<close>

definition router :: "(http_method \<times> string list \<times> handler list) list" where
  "router =
     [(POST, [''register''], [UploadFields [''avatar'', ''coverImage''], RegisterUser]),
      (POST, [''login''], [LoginUser]),
      (POST, [''logout''], [VerifyJWT, LogoutUser]),
      (POST, [''refresh-token''], [RefreshAccessToken]),
      (POST, [''change-password''], [VerifyJWT, ChangeCurrentPassword]),
      (GET, [''current-user''], [VerifyJWT, GetCurrentUser]),
      (PATCH, [''update-account''], [VerifyJWT, UpdateAccountDetails]),
      (PATCH, [''avatar''], [VerifyJWT, UploadSingle ''avatar'', UpdateUserAvatar]),
      (PATCH, [''cover-image''], [VerifyJWT, UploadSingle ''coverImage'', UpdateUserCoverImage]),
      (GET, [''c'', '':username''], [VerifyJWT, GetUserChannelProfile]),
      (GET, [''history''], [VerifyJWT, GetWatchHistory])]"

text \<open>
  What each handler does.  The upload middlewares of multer and the six controllers that
  no property below is about are the parameter \<open>other\<close>.
\<close>

fun run_handler :: "env \<Rightarrow> (handler \<Rightarrow> layer_fn) \<Rightarrow> handler \<Rightarrow> layer_fn" where
  "run_handler e other VerifyJWT = asyncHandler (middleware (verifyJWT e))"
| "run_handler e other RegisterUser = asyncHandler (controller (registerUser e))"
| "run_handler e other LoginUser = asyncHandler (controller (loginUser e))"
| "run_handler e other LogoutUser = asyncHandler (controller (logoutUser e))"
| "run_handler e other RefreshAccessToken = asyncHandler (controller (refreshAccessToken e))"
| "run_handler e other GetWatchHistory = asyncHandler (controller (getWatchHistory e))"
| "run_handler e other h = other h"

text \<open>
  The handlers of one route run in order; the first that does not call \<open>next()\<close>
  ends the route.
\<close>

fun run_chain :: "(handler \<Rightarrow> layer_fn) \<Rightarrow> handler list \<Rightarrow> layer_fn" where
  "run_chain run [] req d = (Next req, d)"
| "run_chain run (h # hs) req d =
     (case run h req d of
        (Next req', d') \<Rightarrow> run_chain run hs req' d'
      | other \<Rightarrow> other)"

text \<open>
  Route matching with the framework's defaults: a segment of a route path that starts
  with a colon is a parameter, letter case is ignored, and one trailing slash (an empty
  last segment) is accepted.
\<close>

fun match_path :: "string list \<Rightarrow> string list \<Rightarrow> bool" where
  "match_path [] ss = (ss = [] \<or> ss = [[]])"
| "match_path (p # ps) [] = False"
| "match_path (p # ps) (s # ss) =
     ((case p of
         c # _ \<Rightarrow> if c = CHR '':'' then s \<noteq> [] else toLowerCase p = toLowerCase s
       | [] \<Rightarrow> s = [])
      \<and> match_path ps ss)"

fun run_routes ::
  "(handler \<Rightarrow> layer_fn) \<Rightarrow> (http_method \<times> string list \<times> handler list) list \<Rightarrow> layer_fn" where
  "run_routes run [] req d = (Next req, d)"
| "run_routes run ((m, pat, hs) # rs) req d =
     (if m = rmethod req \<and> match_path pat (rpath req)
      then (case run_chain run hs req d of
              (Next req', d') \<Rightarrow> run_routes run rs req' d'
            | other \<Rightarrow> other)
      else run_routes run rs req d)"

definition userRouter :: "env \<Rightarrow> (handler \<Rightarrow> layer_fn) \<Rightarrow> layer_fn" where
  "userRouter e other = run_routes (run_handler e other) router"

text \<open>
  The error-handling middleware of \<open>app.js\<close>:
  \<open>res.status(statusCode).json({success: false, message, statusCode})\<close>.
\<close>

record error_body =
  success :: bool
  eb_message :: string
  eb_statusCode :: nat

datatype http_response =
    Handled response
  | ErrorJson nat error_body
  | FinalHandler "js_error option"

definition errorMiddleware :: "js_error \<Rightarrow> http_response" where
  "errorMiddleware err =
     (let code = (case statusCode err of None \<Rightarrow> 500 | Some c \<Rightarrow> if c = 0 then 500 else c);
          msg = or_default (message err) ''Internal Server Error''
      in ErrorJson code \<lparr>success = False, eb_message = msg, eb_statusCode = code\<rparr>)"

text \<open>
  The layers of an application, in the order of the \<open>app.use\<close> calls.  The framework
  (which is not part of the repository) walks the stack forward only: without a pending
  error it skips the error-handling layers; after \<open>next(err)\<close> it skips the ordinary
  layers and gives the error to the next error-handling layer that follows in the
  stack; at the end of the stack its built-in final handler answers (an error page for a
  pending error, 404 otherwise).
\<close>

datatype app_layer = Use layer_fn | UseError "js_error \<Rightarrow> http_response"

fun express_handle :: "app_layer list \<Rightarrow> js_error option \<Rightarrow> request \<Rightarrow> db \<Rightarrow> http_response \<times> db" where
  "express_handle [] pending req d = (FinalHandler pending, d)"
| "express_handle (Use f # ls) None req d =
     (case f req d of
        (Next req', d') \<Rightarrow> express_handle ls None req' d'
      | (NextErr err, d') \<Rightarrow> express_handle ls (Some err) req d'
      | (Sent res, d') \<Rightarrow> (Handled res, d'))"
| "express_handle (Use f # ls) (Some err) req d = express_handle ls (Some err) req d"
| "express_handle (UseError h # ls) None req d = express_handle ls None req d"
| "express_handle (UseError h # ls) (Some err) req d = (h err, d)"

text \<open>
  \<open>app.use(prefix, router)\<close>: the prefix is matched without regard to letter case, and
  the router sees the path below it.
\<close>

definition mount :: "string list \<Rightarrow> layer_fn \<Rightarrow> layer_fn" where
  "mount pre f req d =
     (if map toLowerCase (take (length pre) (rpath req)) = map toLowerCase pre
      then (case f (req\<lparr>rpath := drop (length pre) (rpath req)\<rparr>) d of
              (Next req', d') \<Rightarrow> (Next (req'\<lparr>rpath := rpath req\<rparr>), d')
            | other \<Rightarrow> other)
      else (Next req, d))"

text \<open>The five library middlewares that \<open>app.js\<close> installs first.\<close>

record libs =
  cors :: layer_fn
  express_json :: layer_fn
  express_urlencoded :: layer_fn
  express_static :: layer_fn
  cookieParser :: layer_fn

text \<open>
  \<open>app.js\<close>: the library middlewares, then the error-handling middleware, then the
  users router under \<open>/api/v1/users/\<close>.
\<close>

definition app :: "env \<Rightarrow> libs \<Rightarrow> (handler \<Rightarrow> layer_fn) \<Rightarrow> app_layer list" where
  "app e l other =
     [Use (cors l), Use (express_json l), Use (express_urlencoded l), Use (express_static l),
      Use (cookieParser l),
      UseError errorMiddleware,
      Use (mount [''api'', ''v1'', ''users''] (userRouter e other))]"

section \<open>A sample environment, database and requests\<close>

text \<open>
  Concrete values on which the theorems below are instantiated.  The sample signer is
  deterministic in the user, as a token signed twice within the same second is; the
  sample password check compares with the stored value \<open>"h:" @ password\<close>.
\<close>

definition alice :: user where
  "alice = \<lparr>uid = 1, username = ''alice'', email = ''a@x.io'', fullName = ''Alice'',
     avatar = ''a.png'', coverImage = [], password = ''h:pw1'',
     refreshToken = Some ''rt.alice'', watchHistory = [20, 10]\<rparr>"

definition bob :: user where
  "bob = \<lparr>uid = 2, username = ''bob'', email = ''b@x.io'', fullName = ''Bob'',
     avatar = ''b.png'', coverImage = [], password = ''h:pw2'',
     refreshToken = None, watchHistory = [10, 10]\<rparr>"

definition sample_db :: db where
  "sample_db = \<lparr>users = [alice, bob],
     videos = [\<lparr>vid = 10, title = ''ten'', owner = 2\<rparr>,
               \<lparr>vid = 20, title = ''twenty'', owner = 1\<rparr>]\<rparr>"

definition strip_slashes :: "string \<Rightarrow> string" where
  "strip_slashes p =
     rev (dropWhile (\<lambda>c. c = CHR ''/'') (rev (dropWhile (\<lambda>c. c = CHR ''/'') p)))"

definition sample_env :: env where
  "sample_env =
     \<lparr>jwt_verify = (\<lambda>t s.
         if s = REFRESH_TOKEN_SECRET \<and> t = ''rt.alice'' then Inr (Some 1)
         else if s = REFRESH_TOKEN_SECRET \<and> t = ''rt.old'' then Inr (Some 1)
         else if s = ACCESS_TOKEN_SECRET \<and> t = ''at.alice'' then Inr (Some 1)
         else Inl (TypeError ''invalid signature'')),
      generateAccessToken = (\<lambda>u. Inr (''at.'' @ username u)),
      generateRefreshToken = (\<lambda>u. Inr (''rt.'' @ username u)),
      isPasswordCorrect = (\<lambda>u p.
         case p of None \<Rightarrow> Inl (TypeError ''data and hash arguments required'')
         | Some s \<Rightarrow> Inr (password u = ''h:'' @ s)),
      hashPassword = (\<lambda>p.
         case p of None \<Rightarrow> Inl (TypeError ''password is required'')
         | Some s \<Rightarrow> Inr (''h:'' @ s)),
      new_id = (\<lambda>us. Suc (fold max (map uid us) 0)),
      uploader_upload = (\<lambda>p. Inr \<lparr>url = ''cdn:'' @ p\<rparr>),
      fs_unlinkSync = (\<lambda>p. None),
      cwd = ''/app'',
      normalizeString = (\<lambda>p allowAboveRoot. strip_slashes p)\<rparr>"

definition pass :: layer_fn where
  "pass req d = (Next req, d)"

definition sample_libs :: libs where
  "sample_libs = \<lparr>cors = pass, express_json = pass, express_urlencoded = pass,
     express_static = pass, cookieParser = pass\<rparr>"

definition sample_other :: "handler \<Rightarrow> layer_fn" where
  "sample_other h = pass"

text \<open>The empty body \<open>{}\<close>.\<close>

definition no_fields :: req_body where
  "no_fields = \<lparr>b_fullName = None, b_email = None, b_username = None, b_password = None,
     b_refreshToken = None\<rparr>"

text \<open>A request with no cookie, no header, an empty body and no file.\<close>

definition bare :: "http_method \<Rightarrow> string list \<Rightarrow> request" where
  "bare m p = \<lparr>rmethod = m, rpath = p, cookies_accessToken = None,
     cookies_refreshToken = None, header_Authorization = None, body = Some no_fields,
     files_avatar = [], files_coverImage = [], req_user = None\<rparr>"

definition refresh_alice :: request where
  "refresh_alice = (bare POST [''refresh-token''])\<lparr>cookies_refreshToken := Some ''rt.alice''\<rparr>"

definition refresh_old :: request where
  "refresh_old = (bare POST [''refresh-token''])
     \<lparr>body := Some (no_fields\<lparr>b_refreshToken := Some ''rt.old''\<rparr>)\<rparr>"

text \<open>A refresh request with no cookie and no body.\<close>

definition refresh_no_body :: request where
  "refresh_no_body = (bare POST [''refresh-token''])\<lparr>body := None\<rparr>"

definition login_alice :: request where
  "login_alice = (bare POST [''login''])
     \<lparr>body := Some (no_fields\<lparr>b_username := Some ''alice'', b_password := Some ''pw1''\<rparr>)\<rparr>"

definition login_alice_wrong :: request where
  "login_alice_wrong = (bare POST [''login''])
     \<lparr>body := Some (no_fields\<lparr>b_email := Some ''a@x.io'', b_password := Some ''guess''\<rparr>)\<rparr>"

definition logout_alice :: request where
  "logout_alice = (bare POST [''logout''])\<lparr>req_user := Some (select_user alice)\<rparr>"

definition carol_fields :: req_body where
  "carol_fields = \<lparr>b_fullName = Some ''Carol'', b_email = Some ''c@x.io'',
     b_username = Some ''Carol'', b_password = Some ''pw3'', b_refreshToken = None\<rparr>"

definition register_carol :: request where
  "register_carol = (bare POST [''register''])\<lparr>body := Some carol_fields,
     files_avatar := [''public/temp/c.png''], files_coverImage := [''public/temp/cc.png'']\<rparr>"

definition register_no_avatar :: request where
  "register_no_avatar = register_carol\<lparr>files_avatar := []\<rparr>"

definition register_taken :: request where
  "register_taken = register_carol\<lparr>body := Some (carol_fields\<lparr>b_username := Some ''alice''\<rparr>)\<rparr>"

definition register_taken_blank :: request where
  "register_taken_blank = register_carol
     \<lparr>body := Some (carol_fields\<lparr>b_username := Some ''alice'', b_password := Some ''  ''\<rparr>)\<rparr>"

definition history_alice :: request where
  "history_alice = (bare GET [''history''])\<lparr>req_user := Some (select_user alice)\<rparr>"

text \<open>
  The sample database before a rotation: the stored refresh token of \<open>alice\<close> is
  \<open>rt.old\<close>.
\<close>

definition stale_db :: db where
  "stale_db = sample_db\<lparr>users := [alice\<lparr>refreshToken := Some ''rt.old''\<rparr>, bob]\<rparr>"

section \<open>Lookup lemmas\<close>

lemmas js_defs = ApiError_def TypeError_def truthy_def js_or_def or_default_def

lemmas body_defs = body_fullName_def body_email_def body_username_def body_password_def

lemmas handler_defs =
  refreshAccessToken_def refresh_try_def incoming_token_def generateAccessAndRefereshTokens_def
  generate_failed_def logoutUser_def unset_refreshToken_def loginUser_def findById_def
  findOne_or_def save_def options_def ApiResponse_def select_user_def

lemmas sample_defs = alice_def bob_def sample_db_def stale_db_def sample_env_def bare_def
  no_fields_def carol_fields_def pass_def sample_libs_def sample_other_def strip_slashes_def

lemmas request_defs = refresh_alice_def refresh_old_def refresh_no_body_def login_alice_def
  login_alice_wrong_def logout_alice_def register_carol_def register_no_avatar_def
  register_taken_def register_taken_blank_def history_alice_def

lemma body_present:
  "body_username req = Some x \<or> body_email req = Some y
   \<or> truthy (body_username req) \<or> truthy (body_email req) \<Longrightarrow> body req \<noteq> None"
  by (cases "body req") (auto simp: body_defs truthy_def)

lemma findById_Some: "findById us i = Some u \<Longrightarrow> i = Some (uid u) \<and> u \<in> set us"
  by (auto simp: findById_def find_Some_iff split: option.splits)

lemma findById_map:
  "findById (map (\<lambda>x. if uid x = k then f x else x) us) (Some k)
     = map_option f (findById us (Some k))"
  if "\<And>x. uid (f x) = uid x"
  using that by (induction us) (auto simp: findById_def)


lemma findOne_or_member:
  assumes "u \<in> set us"
    and "uname = Some (username u) \<or> mail = Some (email u)"
  shows "findOne_or us uname mail \<noteq> None"
  using assms by (auto simp: findOne_or_def find_None_iff)

lemma generate_unchanged_on_error:
  "generateAccessAndRefereshTokens e k d = (Inl err, d') \<Longrightarrow> d' = d \<and> err = generate_failed"
  by (auto simp: generateAccessAndRefereshTokens_def split: option.splits sum.splits)


lemma refresh_try_Inr:
  assumes "refresh_try e tok d = (Inr res, d')"
  shows "\<exists>u a r. jwt_verify e tok REFRESH_TOKEN_SECRET = Inr (Some (uid u))
           \<and> findById (users d) (Some (uid u)) = Some u
           \<and> refreshToken u = Some tok
           \<and> generateAccessAndRefereshTokens e (uid u) d = (Inr (a, r), d')
           \<and> res = \<lparr>status = 200,
                     cookie = [(''accessToken'', a, options), (''refreshToken'', r, options)],
                     clearCookie = [],
                     json = ApiResponse 200 (DTokens a r) ''Access token refreshed''\<rparr>"
proof -
  from assms obtain k u a r where
    v: "jwt_verify e tok REFRESH_TOKEN_SECRET = Inr k" and
    f: "findById (users d) k = Some u" and
    m: "refreshToken u = Some tok" and
    g: "generateAccessAndRefereshTokens e (uid u) d = (Inr (a, r), d')" and
    r: "res = \<lparr>status = 200,
                     cookie = [(''accessToken'', a, options), (''refreshToken'', r, options)],
                     clearCookie = [],
                     json = ApiResponse 200 (DTokens a r) ''Access token refreshed''\<rparr>"
    by (auto simp: refresh_try_def split: sum.splits option.splits if_splits prod.splits)
  from findById_Some[OF f] have "k = Some (uid u)" by simp
  with v f m g r show ?thesis by blast
qed

lemma refresh_try_Inl:
  assumes "refresh_try e tok d = (Inl err, d')"
  shows "d' = d"
  using assms
  by (auto simp: refresh_try_def split: sum.splits option.splits if_splits prod.splits
      dest: generate_unchanged_on_error)

lemma refresh_Inr:
  assumes "refreshAccessToken e req d = (Inr res, d')"
  shows "\<exists>tok. incoming_token req = Inr (Some tok) \<and> tok \<noteq> []
           \<and> refresh_try e tok d = (Inr res, d')"
proof (cases "incoming_token req")
  case (Inl err)
  with assms show ?thesis by (simp add: refreshAccessToken_def)
next
  case (Inr t)
  with assms show ?thesis
    by (cases t) (auto simp: refreshAccessToken_def split: if_splits sum.splits prod.splits)
qed

text \<open>
  A refresh that presents a token other than the stored one of the user it names is
  rejected.
\<close>

lemma refresh_mismatch:
  assumes tok: "incoming_token req = Inr (Some tok)"
    and ver: "jwt_verify e tok REFRESH_TOKEN_SECRET = Inr (Some k)"
    and stored: "\<And>u. findById (users d) (Some k) = Some u \<Longrightarrow> refreshToken u \<noteq> Some tok"
  shows "\<exists>m. refreshAccessToken e req d = (Inl (ApiError 401 m), d)"
proof (cases "tok = []")
  case True
  with tok show ?thesis by (auto simp: refreshAccessToken_def)
next
  case False
  have "\<exists>m. refresh_try e tok d = (Inl (ApiError 401 m), d)"
  proof (cases "findById (users d) (Some k)")
    case None
    with ver show ?thesis by (auto simp: refresh_try_def)
  next
    case (Some u)
    with stored have "refreshToken u \<noteq> Some tok" by simp
    with Some ver show ?thesis by (auto simp: refresh_try_def)
  qed
  then obtain m where "refresh_try e tok d = (Inl (ApiError 401 m), d)" ..
  with tok False show ?thesis by (auto simp: refreshAccessToken_def)
qed


section \<open>The sample requests, evaluated\<close>

lemma refresh_old_rejected:
  "refreshAccessToken sample_env refresh_old sample_db
     = (Inl (ApiError 401 ''Refresh token is expired or used''), sample_db)"
  by (simp add: handler_defs js_defs sample_defs request_defs)


lemma refresh_alice_accepted:
  "refreshAccessToken sample_env refresh_alice sample_db
     = (Inr \<lparr>status = 200,
             cookie = [(''accessToken'', ''at.alice'', options),
                       (''refreshToken'', ''rt.alice'', options)],
             clearCookie = [],
             json = ApiResponse 200 (DTokens ''at.alice'' ''rt.alice'')
                      ''Access token refreshed''\<rparr>, sample_db)"
  by (simp add: handler_defs js_defs sample_defs request_defs)

lemma login_alice_accepted:
  "loginUser sample_env login_alice sample_db
     = (Inr \<lparr>status = 200,
             cookie = [(''accessToken'', ''at.alice'', options),
                       (''refreshToken'', ''rt.alice'', options)],
             clearCookie = [],
             json = ApiResponse 200 (DLogin (Some (select_user alice)) ''at.alice'' ''rt.alice'')
                      ''User logged In Successfully''\<rparr>, sample_db)"
  by (simp add: handler_defs js_defs body_defs sample_defs request_defs)


section \<open>Refresh: guards and atomic failure\<close>

text \<open>
  When the refresh token can be read (a truthy cookie, or a body that is there),
  \<open>refreshAccessToken\<close> either fails with an error whose status code is 401, or
  succeeds; and it succeeds only if a non-empty token was presented, that token verified
  against the refresh secret, the user named by its payload exists, and the token equals
  the refresh token stored on that user's record.
\<close>

lemma refresh_guards:
  assumes "truthy (cookies_refreshToken req) \<or> body req \<noteq> None"
  shows "case refreshAccessToken e req d of
     (Inl err, d') \<Rightarrow> statusCode err = Some 401
   | (Inr res, d') \<Rightarrow>
       (\<exists>tok u. incoming_token req = Inr (Some tok) \<and> tok \<noteq> []
          \<and> jwt_verify e tok REFRESH_TOKEN_SECRET = Inr (Some (uid u))
          \<and> findById (users d) (Some (uid u)) = Some u
          \<and> refreshToken u = Some tok
          \<and> (\<exists>a r. generateAccessAndRefereshTokens e (uid u) d = (Inr (a, r), d')
                \<and> status res = 200
                \<and> cookie res = [(''accessToken'', a, options), (''refreshToken'', r, options)]
                \<and> json res = ApiResponse 200 (DTokens a r) ''Access token refreshed''))"
proof (cases "refreshAccessToken e req d")
  case (Pair out d')
  show ?thesis
  proof (cases out)
    case (Inl err)
    from assms have "\<exists>t. incoming_token req = Inr t"
      by (cases "body req") (auto simp: incoming_token_def)
    then obtain t where t: "incoming_token req = Inr t" ..
    with Pair Inl have "statusCode err = Some 401"
      by (cases t) (auto simp: refreshAccessToken_def ApiError_def
          split: if_splits sum.splits prod.splits)
    with Pair Inl show ?thesis by simp
  next
    case (Inr res)
    with Pair have "refreshAccessToken e req d = (Inr res, d')" by simp
    from refresh_Inr[OF this] obtain tok where
      tok: "incoming_token req = Inr (Some tok)" "tok \<noteq> []"
      and tr: "refresh_try e tok d = (Inr res, d')" by blast
    from refresh_try_Inr[OF tr] tok Pair Inr show ?thesis
      by auto
  qed
qed

text \<open>
  Claim C1 at a failing input: a refresh request with no cookie and no body.  The read of
  \<open>req.body.refreshToken\<close> throws before the \<open>try\<close> block is entered, and the
  handler fails with a \<open>TypeError\<close> that carries no status code, not with the 401
  error.
\<close>

theorem refresh_without_body_throws:
  "cookies_refreshToken refresh_no_body = None \<and> body refresh_no_body = None
   \<and> refreshAccessToken e refresh_no_body d
       = (Inl (TypeError ''Cannot read properties of undefined (reading 'refreshToken')''), d)
   \<and> statusCode (TypeError ''Cannot read properties of undefined (reading 'refreshToken')'')
       = None"
  by (simp add: refreshAccessToken_def incoming_token_def refresh_no_body_def bare_def
      truthy_def TypeError_def)

text \<open>
  Claim C9.  A refresh that is rejected leaves the database, and so every field of every
  user record, as it was: the rotation writes only after all the checks have passed.
\<close>

theorem refresh_atomic_on_failure:
  "refreshAccessToken e req d = (Inl err, d') \<Longrightarrow> d' = d"
proof (cases "incoming_token req")
  case (Inl x)
  assume "refreshAccessToken e req d = (Inl err, d')"
  with Inl show ?thesis by (simp add: refreshAccessToken_def)
next
  case (Inr t)
  assume "refreshAccessToken e req d = (Inl err, d')"
  with Inr show ?thesis
    by (cases t) (auto simp: refreshAccessToken_def split: if_splits sum.splits prod.splits
        dest: refresh_try_Inl)
qed

theorem refresh_atomic_witness:
  "fst (refreshAccessToken sample_env refresh_old sample_db)
     = Inl (ApiError 401 ''Refresh token is expired or used'')
   \<and> snd (refreshAccessToken sample_env refresh_old sample_db) = sample_db"
proof -
  have f: "fst (refreshAccessToken sample_env refresh_old sample_db)
             = Inl (ApiError 401 ''Refresh token is expired or used'')"
    by (simp add: refresh_old_rejected)
  then have "refreshAccessToken sample_env refresh_old sample_db
               = (Inl (ApiError 401 ''Refresh token is expired or used''),
                  snd (refreshAccessToken sample_env refresh_old sample_db))"
    by (metis prod.collapse)
  from refresh_atomic_on_failure[OF this] f show ?thesis by simp
qed

section \<open>Rotation of the stored token\<close>







section \<open>Logout\<close>

text \<open>
  Claim C3.  For an authenticated user, \<open>logoutUser\<close> succeeds and clears both token
  cookies; in the database it leaves, the record of that user is the one it was with the
  refresh token removed, and nothing else has changed; any later refresh that presents a
  token verifying as that user's (in particular the one that was valid before the
  logout) is rejected with a 401 error and changes nothing.
\<close>

theorem logout_invalidates_refresh:
  assumes "req_user req = Some v"
    and "incoming_token req2 = Inr (Some tok)"
    and "jwt_verify e2 tok REFRESH_TOKEN_SECRET = Inr (Some (v_id v))"
  shows "\<exists>res d1. logoutUser e req d = (Inr res, d1)
           \<and> d1 = d\<lparr>users := map (\<lambda>x. if uid x = v_id v then x\<lparr>refreshToken := None\<rparr> else x)
                                 (users d)\<rparr>
           \<and> findById (users d1) (Some (v_id v))
               = map_option (\<lambda>x. x\<lparr>refreshToken := None\<rparr>) (findById (users d) (Some (v_id v)))
           \<and> status res = 200 \<and> cookie res = []
           \<and> clearCookie res = [(''accessToken'', options), (''refreshToken'', options)]
           \<and> (\<exists>m. refreshAccessToken e2 req2 d1 = (Inl (ApiError 401 m), d1))"
proof -
  let ?us = "map (\<lambda>x. if uid x = v_id v then x\<lparr>refreshToken := None\<rparr> else x) (users d)"
  let ?d1 = "d\<lparr>users := ?us\<rparr>"
  have f: "findById ?us (Some (v_id v))
             = map_option (\<lambda>x. x\<lparr>refreshToken := None\<rparr>) (findById (users d) (Some (v_id v)))"
    by (rule findById_map) simp
  then have "\<And>u. findById (users ?d1) (Some (v_id v)) = Some u \<Longrightarrow> refreshToken u \<noteq> Some tok"
    by auto
  from refresh_mismatch[OF assms(2) assms(3) this]
  have rej: "\<exists>m. refreshAccessToken e2 req2 ?d1 = (Inl (ApiError 401 m), ?d1)" .
  from assms(1) have l: "logoutUser e req d
      = (Inr \<lparr>status = 200, cookie = [],
                clearCookie = [(''accessToken'', options), (''refreshToken'', options)],
                json = ApiResponse 200 (DCleared ''cleared refresh token'') ''User logged Out''\<rparr>,
         ?d1)"
    by (simp add: logoutUser_def unset_refreshToken_def)
  from f have f': "findById (users ?d1) (Some (v_id v))
             = map_option (\<lambda>x. x\<lparr>refreshToken := None\<rparr>) (findById (users d) (Some (v_id v)))"
    by simp
  let ?res = "\<lparr>status = 200, cookie = [],
                clearCookie = [(''accessToken'', options), (''refreshToken'', options)],
                json = ApiResponse 200 (DCleared ''cleared refresh token'') ''User logged Out''\<rparr>"
  have "logoutUser e req d = (Inr ?res, ?d1) \<and> ?d1 = ?d1
           \<and> findById (users ?d1) (Some (v_id v))
               = map_option (\<lambda>x. x\<lparr>refreshToken := None\<rparr>) (findById (users d) (Some (v_id v)))
           \<and> status ?res = 200 \<and> cookie ?res = []
           \<and> clearCookie ?res = [(''accessToken'', options), (''refreshToken'', options)]
           \<and> (\<exists>m. refreshAccessToken e2 req2 ?d1 = (Inl (ApiError 401 m), ?d1))"
    using l f' rej by simp
  then show ?thesis by blast
qed

theorem logout_witness:
  "req_user logout_alice = Some (select_user alice)
   \<and> refreshAccessToken sample_env refresh_alice sample_db
       = (Inr \<lparr>status = 200,
             cookie = [(''accessToken'', ''at.alice'', options),
                       (''refreshToken'', ''rt.alice'', options)],
             clearCookie = [],
             json = ApiResponse 200 (DTokens ''at.alice'' ''rt.alice'')
                      ''Access token refreshed''\<rparr>, sample_db)
   \<and> findById (users (snd (logoutUser sample_env logout_alice sample_db))) (Some 1)
       = Some (alice\<lparr>refreshToken := None\<rparr>)
   \<and> (\<exists>m. refreshAccessToken sample_env refresh_alice
               (snd (logoutUser sample_env logout_alice sample_db))
         = (Inl (ApiError 401 m), snd (logoutUser sample_env logout_alice sample_db)))"
proof -
  have a: "req_user logout_alice = Some (select_user alice)"
    by (simp add: request_defs sample_defs)
  have b: "incoming_token refresh_alice = Inr (Some ''rt.alice'')"
    by (simp add: request_defs sample_defs incoming_token_def js_defs)
  have c: "jwt_verify sample_env ''rt.alice'' REFRESH_TOKEN_SECRET
             = Inr (Some (v_id (select_user alice)))"
    by (simp add: sample_defs select_user_def)
  have i: "v_id (select_user alice) = 1" by (simp add: select_user_def alice_def)
  have before: "findById (users sample_db) (Some 1) = Some alice"
    by (simp add: findById_def sample_defs)
  from logout_invalidates_refresh[OF a b c, of sample_env sample_db]
  obtain res d1 where
    l: "logoutUser sample_env logout_alice sample_db = (Inr res, d1)" and
    f: "findById (users d1) (Some (v_id (select_user alice)))
          = map_option (\<lambda>x. x\<lparr>refreshToken := None\<rparr>)
              (findById (users sample_db) (Some (v_id (select_user alice))))" and
    rej: "\<exists>m. refreshAccessToken sample_env refresh_alice d1 = (Inl (ApiError 401 m), d1)"
    by blast
  from l have s: "snd (logoutUser sample_env logout_alice sample_db) = d1" by simp
  from f have "findById (users d1) (Some 1) = Some (alice\<lparr>refreshToken := None\<rparr>)"
    unfolding i before by simp
  with rej s have
    "findById (users (snd (logoutUser sample_env logout_alice sample_db))) (Some 1)
          = Some (alice\<lparr>refreshToken := None\<rparr>)
        \<and> (\<exists>m. refreshAccessToken sample_env refresh_alice
               (snd (logoutUser sample_env logout_alice sample_db))
         = (Inl (ApiError 401 m), snd (logoutUser sample_env logout_alice sample_db)))"
    by simp
  with a refresh_alice_accepted show ?thesis by simp
qed

section \<open>Login with a wrong password\<close>

text \<open>
  Claim C5.  A login request that gives a username or an email, for which the lookup finds
  a user, and whose password the check of that user rejects, fails with the 401 error
  and leaves the database as it was: no token is issued or stored.
\<close>

theorem login_wrong_password:
  assumes "truthy (body_username req) \<or> truthy (body_email req)"
    and "findOne_or (users d) (body_username req) (body_email req) = Some u"
    and "isPasswordCorrect e u (body_password req) = Inr False"
  shows "loginUser e req d
           = (Inl (ApiError 401 ''Invalid user credentials, Wrong Password!!!!!!''), d)"
proof -
  from assms(1) have "body req \<noteq> None" by (rule body_present[OF disjI2, OF disjI2])
  then obtain b where "body req = Some b" by blast
  with assms show ?thesis by (auto simp: loginUser_def)
qed

theorem login_wrong_password_witness:
  "findOne_or (users sample_db) (body_username login_alice_wrong) (body_email login_alice_wrong)
     = Some alice
   \<and> isPasswordCorrect sample_env alice (body_password login_alice_wrong) = Inr False
   \<and> loginUser sample_env login_alice_wrong sample_db
       = (Inl (ApiError 401 ''Invalid user credentials, Wrong Password!!!!!!''), sample_db)"
proof -
  have a: "truthy (body_username login_alice_wrong) \<or> truthy (body_email login_alice_wrong)"
    by (simp add: request_defs sample_defs js_defs body_defs)
  have b: "findOne_or (users sample_db) (body_username login_alice_wrong)
             (body_email login_alice_wrong) = Some alice"
    by (simp add: request_defs sample_defs findOne_or_def body_defs)
  have c: "isPasswordCorrect sample_env alice (body_password login_alice_wrong) = Inr False"
    by (simp add: request_defs sample_defs body_defs)
  from login_wrong_password[OF a b c] b c show ?thesis by simp
qed

section \<open>Registration: duplicates and the missing avatar\<close>

text \<open>
  Claim C4, amended.  A register request none of whose four fields is blank, and whose
  username or email equals that of an existing user record, fails with the 409 error and
  creates no record.
\<close>

theorem register_duplicate_conflict:
  assumes "\<not> list_ex blank_field
               [body_fullName req, body_email req, body_username req, body_password req]"
    and "u \<in> set (users d)"
    and "body_username req = Some (username u) \<or> body_email req = Some (email u)"
  shows "registerUser e req d
           = (Inl (ApiError 409 ''User with email or username already exists''), d)"
proof -
  from findOne_or_member[OF assms(2) assms(3)]
  obtain x where "findOne_or (users d) (body_username req) (body_email req) = Some x"
    by blast
  moreover from assms(3) obtain b where "body req = Some b"
    by (cases "body req") (auto simp: body_defs)
  ultimately show ?thesis using assms(1) by (simp add: registerUser_def)
qed

lemma register_taken_not_blank:
  "\<not> list_ex blank_field [body_fullName register_taken, body_email register_taken,
        body_username register_taken, body_password register_taken]"
  by (simp add: request_defs sample_defs body_defs blank_field_def js_trim_def is_js_space_def)

theorem register_duplicate_witness:
  "alice \<in> set (users sample_db)
   \<and> body_username register_taken = Some (username alice)
   \<and> registerUser sample_env register_taken sample_db
       = (Inl (ApiError 409 ''User with email or username already exists''), sample_db)"
proof -
  have a: "alice \<in> set (users sample_db)" by (simp add: sample_db_def)
  have b: "body_username register_taken = Some (username alice)"
    by (simp add: request_defs sample_defs body_defs)
  from register_duplicate_conflict[OF register_taken_not_blank a disjI1[OF b]] a b
  show ?thesis by simp
qed

text \<open>
  Claim C4 as stated fails where the non-empty check comes first: the request below names
  the username of an existing user and has a blank password, and the answer is the 400
  error.
\<close>

theorem register_duplicate_counterexample:
  "alice \<in> set (users sample_db)
   \<and> body_username register_taken_blank = Some (username alice)
   \<and> registerUser sample_env register_taken_blank sample_db
       = (Inl (ApiError 400 ''All fields are required''), sample_db)"
  by (simp add: request_defs sample_defs body_defs registerUser_def blank_field_def js_trim_def
      is_js_space_def)

text \<open>
  Node's \<open>path.resolve\<close> never answers the empty string.
\<close>

lemma resolve_string_nonempty: "resolve_string e s \<noteq> []"
  by (simp add: resolve_string_def Let_def split: prod.splits)

lemma path_resolve_nonempty: "path_resolve e r p = Inr a \<Longrightarrow> a \<noteq> []"
  by (auto simp: path_resolve_def resolve_string_nonempty split: option.splits)

lemma path_resolve_error: "path_resolve e r p = Inl err \<Longrightarrow> statusCode err = None"
  by (auto simp: path_resolve_def invalid_path_arg_def TypeError_def split: option.splits)

lemma register_no_avatar_unchanged:
  assumes "files_avatar req = []"
  shows "\<exists>err. registerUser e req d = (Inl err, d)"
  using assms
  by (cases "findOne_or (users d) (body_username req) (body_email req)")
     (simp_all add: registerUser_def path_resolve_def first_path_def)

text \<open>An error of \<open>uploadOnCloudinary\<close> is an error of the file removal.\<close>

lemma upload_error:
  "uploadOnCloudinary e p = Inl err \<Longrightarrow> \<exists>q. fs_unlinkSync e q = Some err"
  by (auto simp: uploadOnCloudinary_def split: if_splits sum.splits option.splits)

lemma create_error:
  "User_create e n d = (Inl err, d') \<Longrightarrow> hashPassword e (n_password n) = Inl err"
  by (auto simp: User_create_def Let_def split: sum.splits)

text \<open>
  With a non-empty avatar path, the 400 error of the guard can leave the rest of
  \<open>registerUser\<close> only as an error that the file removal or the password hook threw.
\<close>

lemma after_guard_error:
  assumes "register_upload_create e req a c d = (Inl err, d')" and "a \<noteq> []"
  shows "(\<exists>q. fs_unlinkSync e q = Some err) \<or> hashPassword e (body_password req) = Inl err
         \<or> err = ApiError 400 ''Avatar file is not uploaded''
         \<or> statusCode err = None
         \<or> err = ApiError 500 ''Something went wrong while registering the user''"
proof (cases "uploadOnCloudinary e a")
  case (Inl x)
  with assms have "err = x" by (simp add: register_upload_create_def)
  with upload_error[OF Inl] show ?thesis by blast
next
  case av: (Inr avatar_res)
  show ?thesis
  proof (cases "uploadOnCloudinary e c")
    case (Inl x)
    with assms av have "err = x" by (simp add: register_upload_create_def)
    with upload_error[OF Inl] show ?thesis by blast
  next
    case cv: (Inr cover_res)
    show ?thesis
    proof (cases avatar_res)
      case None
      with assms av cv show ?thesis by (simp add: register_upload_create_def)
    next
      case (Some upl)
      show ?thesis
      proof (cases "body_username req")
        case None
        with assms av cv Some show ?thesis
          by (auto simp: register_upload_create_def TypeError_def)
      next
        case un: (Some uname)
        let ?n = "\<lparr>n_fullName = body_fullName req, n_avatar = url upl,
                    n_coverImage = (case cover_res of None \<Rightarrow> [] | Some c \<Rightarrow> url c),
                    n_email = body_email req, n_password = body_password req,
                    n_username = toLowerCase uname\<rparr>"
        obtain out d1 where cr: "User_create e ?n d = (out, d1)"
          by (cases "User_create e ?n d")
        show ?thesis
        proof (cases out)
          case (Inl x)
          with assms av cv Some un cr have "err = x"
            by (simp add: register_upload_create_def)
          with create_error[of e ?n d x d1] cr Inl show ?thesis by simp
        next
          case (Inr u)
          with assms av cv Some un cr show ?thesis
            by (cases "findById (users d1) (Some (uid u))")
               (auto simp: register_upload_create_def)
        qed
      qed
    qed
  qed
qed

text \<open>
  Claim C10.  Without an avatar file \<open>registerUser\<close> always ends in an error and
  creates no record; when the body is there and the two checks pass, the error is the
  \<open>TypeError\<close> of \<open>path.resolve(null)\<close>, thrown before the guard and before
  \<open>User.create\<close>.  The guard \<open>!absoluteAvatarPath\<close> is unreachable: a resolved path
  is never empty, and \<open>registerUser\<close> never answers with the guard's 400 error, unless
  the environment (the file removal or the password hook) throws that very error.
\<close>

theorem register_without_avatar:
  "(files_avatar req = [] \<longrightarrow> (\<exists>err. registerUser e req d = (Inl err, d)))
   \<and> (body req \<noteq> None
        \<and> \<not> list_ex blank_field
            [body_fullName req, body_email req, body_username req, body_password req]
        \<and> findOne_or (users d) (body_username req) (body_email req) = None
        \<and> files_avatar req = []
      \<longrightarrow> registerUser e req d = (Inl (invalid_path_arg ''null''), d))
   \<and> ((\<forall>q. fs_unlinkSync e q \<noteq> Some (ApiError 400 ''Avatar file path is required''))
        \<and> hashPassword e (body_password req) \<noteq> Inl (ApiError 400 ''Avatar file path is required'')
      \<longrightarrow> fst (registerUser e req d) \<noteq> Inl (ApiError 400 ''Avatar file path is required''))
   \<and> (\<forall>a. path_resolve e ''null'' (first_path (files_avatar req)) = Inr a \<longrightarrow> a \<noteq> [])"
proof (intro conjI impI allI)
  assume "files_avatar req = []"
  then show "\<exists>err. registerUser e req d = (Inl err, d)"
    by (rule register_no_avatar_unchanged)
next
  assume "body req \<noteq> None
        \<and> \<not> list_ex blank_field
            [body_fullName req, body_email req, body_username req, body_password req]
        \<and> findOne_or (users d) (body_username req) (body_email req) = None
        \<and> files_avatar req = []"
  then show "registerUser e req d = (Inl (invalid_path_arg ''null''), d)"
    by (auto simp: registerUser_def path_resolve_def first_path_def)
next
  fix a assume "path_resolve e ''null'' (first_path (files_avatar req)) = Inr a"
  then show "a \<noteq> []" by (rule path_resolve_nonempty)
next
  let ?G = "ApiError 400 ''Avatar file path is required''"
  assume env: "(\<forall>q. fs_unlinkSync e q \<noteq> Some ?G)
        \<and> hashPassword e (body_password req) \<noteq> Inl ?G"
  show "fst (registerUser e req d) \<noteq> Inl ?G"
  proof
    assume g: "fst (registerUser e req d) = Inl ?G"
    then obtain d' where r: "registerUser e req d = (Inl ?G, d')"
      by (cases "registerUser e req d") simp
    have G: "statusCode ?G = Some 400" "?G \<noteq> cannot_destructure ''fullName''"
      "?G \<noteq> ApiError 400 ''All fields are required''"
      "?G \<noteq> ApiError 409 ''User with email or username already exists''"
      "?G \<noteq> ApiError 400 ''Avatar file is not uploaded''"
      "?G \<noteq> ApiError 500 ''Something went wrong while registering the user''"
      by (simp_all add: ApiError_def cannot_destructure_def TypeError_def)
    from r G(2,3,4) obtain a c where
      pa: "path_resolve e ''null'' (first_path (files_avatar req)) = Inr a" and
      rest: "register_upload_create e req a c d = (Inl ?G, d')"
    proof (cases "path_resolve e ''null'' (first_path (files_avatar req))")
      case (Inl x)
      from path_resolve_error[OF Inl] have "x \<noteq> ?G" using G(1) by auto
      with r G(2,3,4) Inl show ?thesis
        by (auto simp: registerUser_def split: if_splits option.splits)
    next
      case a: (Inr a)
      show ?thesis
      proof (cases "path_resolve e ''undefined'' (first_path (files_coverImage req))")
        case (Inl x)
        from path_resolve_error[OF Inl] have "x \<noteq> ?G" using G(1) by auto
        with r G(2,3,4) a Inl show ?thesis
          by (auto simp: registerUser_def split: if_splits option.splits)
      next
        case (Inr c)
        with r G(2,3,4) a have "register_upload_create e req a c d = (Inl ?G, d')"
          by (auto simp: registerUser_def split: if_splits option.splits)
        with a that show ?thesis by blast
      qed
    qed
    from path_resolve_nonempty[OF pa] have "a \<noteq> []" .
    from after_guard_error[OF rest this] env G show False by auto
  qed
qed

lemma register_no_avatar_checks:
  "body register_no_avatar \<noteq> None
   \<and> \<not> list_ex blank_field [body_fullName register_no_avatar, body_email register_no_avatar,
        body_username register_no_avatar, body_password register_no_avatar]
   \<and> findOne_or (users sample_db) (body_username register_no_avatar)
        (body_email register_no_avatar) = None
   \<and> files_avatar register_no_avatar = []"
  by (simp add: request_defs sample_defs body_defs blank_field_def js_trim_def is_js_space_def
      findOne_or_def)

lemma register_carol_path:
  "path_resolve sample_env ''null'' (first_path (files_avatar register_carol))
     = Inr ''/app/public/temp/c.png''"
  by (simp add: request_defs sample_defs path_resolve_def resolve_string_def first_path_def
      is_absolute_def)

lemma register_carol_created:
  "fst (registerUser sample_env register_carol sample_db)
     = Inr \<lparr>status = 201, cookie = [], clearCookie = [],
         json = ApiResponse 200
           (DUser \<lparr>v_id = 3, v_username = ''carol'', v_email = ''c@x.io'',
              v_fullName = ''Carol'', v_avatar = ''cdn:/app/public/temp/c.png'',
              v_coverImage = ''cdn:/app/public/temp/cc.png'', v_watchHistory = []\<rparr>)
           ''User registered Successfully''\<rparr>"
  by code_simp

lemma sample_env_throws_no_guard_error:
  "(\<forall>q. fs_unlinkSync sample_env q \<noteq> Some (ApiError 400 ''Avatar file path is required''))
   \<and> hashPassword sample_env (body_password register_carol)
       \<noteq> Inl (ApiError 400 ''Avatar file path is required'')"
  by (simp add: sample_env_def request_defs sample_defs body_defs)

theorem register_without_avatar_witness:
  "files_avatar register_no_avatar = []
   \<and> registerUser sample_env register_no_avatar sample_db
        = (Inl (invalid_path_arg ''null''), sample_db)
   \<and> fst (registerUser sample_env register_carol sample_db)
        = Inr \<lparr>status = 201, cookie = [], clearCookie = [],
         json = ApiResponse 200
           (DUser \<lparr>v_id = 3, v_username = ''carol'', v_email = ''c@x.io'',
              v_fullName = ''Carol'', v_avatar = ''cdn:/app/public/temp/c.png'',
              v_coverImage = ''cdn:/app/public/temp/cc.png'', v_watchHistory = []\<rparr>)
           ''User registered Successfully''\<rparr>
   \<and> fst (registerUser sample_env register_carol sample_db)
        \<noteq> Inl (ApiError 400 ''Avatar file path is required'')
   \<and> path_resolve sample_env ''null'' (first_path (files_avatar register_carol))
        = Inr ''/app/public/temp/c.png''
   \<and> ''/app/public/temp/c.png'' \<noteq> []"
  using register_without_avatar[of register_no_avatar sample_env sample_db]
        register_without_avatar[of register_carol sample_env sample_db]
        register_no_avatar_checks register_carol_path register_carol_created
        sample_env_throws_no_guard_error
  by blast

section \<open>Routes guarded by verifyJWT\<close>

lemma verify_try_Inr:
  assumes "verify_try e req d = Inr v"
  shows "\<exists>tok u. access_token req = Some tok \<and> tok \<noteq> []
           \<and> jwt_verify e tok ACCESS_TOKEN_SECRET = Inr (Some (uid u))
           \<and> findById (users d) (Some (uid u)) = Some u \<and> v = select_user u"
proof -
  from assms obtain tok k u where
    t: "access_token req = Some tok" "tok \<noteq> []" and
    j: "jwt_verify e tok ACCESS_TOKEN_SECRET = Inr k" and
    f: "findById (users d) k = Some u" and v: "v = select_user u"
    by (auto simp: verify_try_def split: option.splits if_splits sum.splits)
  from findById_Some[OF f] have "k = Some (uid u)" by simp
  with t j f v show ?thesis by blast
qed

lemma verifyJWT_rejects:
  assumes "\<forall>tok u. access_token req = Some tok \<and> tok \<noteq> []
             \<and> jwt_verify e tok ACCESS_TOKEN_SECRET = Inr (Some (uid u))
             \<longrightarrow> findById (users d) (Some (uid u)) \<noteq> Some u"
  shows "\<exists>msg. verifyJWT e req d = Inl (ApiError 401 msg)"
proof (cases "verify_try e req d")
  case (Inl err)
  then show ?thesis by (auto simp: verifyJWT_def)
next
  case (Inr v)
  from verify_try_Inr[OF this] assms show ?thesis by blast
qed

lemma guarded_chain_rejects:
  assumes "verifyJWT e req d = Inl err"
  shows "run_chain (run_handler e other) (VerifyJWT # rest) req d = (NextErr err, d)"
  using assms by (simp add: asyncHandler_def middleware_def)

lemma router_chains:
  "map (\<lambda>(m, p, hs). (p, hs)) router =
     [([''register''], [UploadFields [''avatar'', ''coverImage''], RegisterUser]),
      ([''login''], [LoginUser]),
      ([''logout''], [VerifyJWT, LogoutUser]),
      ([''refresh-token''], [RefreshAccessToken]),
      ([''change-password''], [VerifyJWT, ChangeCurrentPassword]),
      ([''current-user''], [VerifyJWT, GetCurrentUser]),
      ([''update-account''], [VerifyJWT, UpdateAccountDetails]),
      ([''avatar''], [VerifyJWT, UploadSingle ''avatar'', UpdateUserAvatar]),
      ([''cover-image''], [VerifyJWT, UploadSingle ''coverImage'', UpdateUserCoverImage]),
      ([''c'', '':username''], [VerifyJWT, GetUserChannelProfile]),
      ([''history''], [VerifyJWT, GetWatchHistory])]"
  by (simp add: router_def)

lemma router_cases:
  assumes "(m, p, hs) \<in> set router"
  shows "(p, hs) \<in> set (map (\<lambda>(m, p, hs). (p, hs)) router)"
  using assms by force

lemma router_guarded_head:
  assumes "(m, p, hs) \<in> set router" and "VerifyJWT \<in> set hs"
  shows "\<exists>rest. hs = VerifyJWT # rest"
proof -
  from router_cases[OF assms(1)] have
    "hs \<in> snd ` set (map (\<lambda>(m, p, hs). (p, hs)) router)" by force
  then have "hs \<in> {[UploadFields [''avatar'', ''coverImage''], RegisterUser], [LoginUser],
      [VerifyJWT, LogoutUser], [RefreshAccessToken], [VerifyJWT, ChangeCurrentPassword],
      [VerifyJWT, GetCurrentUser], [VerifyJWT, UpdateAccountDetails],
      [VerifyJWT, UploadSingle ''avatar'', UpdateUserAvatar],
      [VerifyJWT, UploadSingle ''coverImage'', UpdateUserCoverImage],
      [VerifyJWT, GetUserChannelProfile], [VerifyJWT, GetWatchHistory]}"
    unfolding router_chains by simp
  with assms(2) show ?thesis by auto
qed

lemma router_guarded_iff:
  assumes "(m, p, hs) \<in> set router"
  shows "VerifyJWT \<in> set hs \<longleftrightarrow> p \<notin> {[''register''], [''login''], [''refresh-token'']}"
proof -
  from router_cases[OF assms] have
    "(p, hs) \<in> set (map (\<lambda>(m, p, hs). (p, hs)) router)" .
  then consider
      "p = [''register'']" "hs = [UploadFields [''avatar'', ''coverImage''], RegisterUser]"
    | "p = [''login'']" "hs = [LoginUser]"
    | "p = [''logout'']" "hs = [VerifyJWT, LogoutUser]"
    | "p = [''refresh-token'']" "hs = [RefreshAccessToken]"
    | "p = [''change-password'']" "hs = [VerifyJWT, ChangeCurrentPassword]"
    | "p = [''current-user'']" "hs = [VerifyJWT, GetCurrentUser]"
    | "p = [''update-account'']" "hs = [VerifyJWT, UpdateAccountDetails]"
    | "p = [''avatar'']" "hs = [VerifyJWT, UploadSingle ''avatar'', UpdateUserAvatar]"
    | "p = [''cover-image'']" "hs = [VerifyJWT, UploadSingle ''coverImage'', UpdateUserCoverImage]"
    | "p = [''c'', '':username'']" "hs = [VerifyJWT, GetUserChannelProfile]"
    | "p = [''history'']" "hs = [VerifyJWT, GetWatchHistory]"
    unfolding router_chains by (elim set_ConsD[elim_format] disjE) simp_all
  then show ?thesis by cases simp_all
qed

text \<open>
  Claim C6, amended.  Of the routes of the users router, exactly those other than
  register, login and refresh-token are guarded by \<open>verifyJWT\<close>, and there it is the
  first handler: a request that presents no access token, or whose token does not verify,
  or whose token names no user, is passed on as a 401 error before any other handler of
  the route runs, and the database is untouched.
\<close>

theorem verifyJWT_guards_routes:
  assumes "(m, p, hs) \<in> set router"
  shows "(VerifyJWT \<in> set hs \<longleftrightarrow> p \<notin> {[''register''], [''login''], [''refresh-token'']})
       \<and> (VerifyJWT \<in> set hs \<longrightarrow>
            (\<forall>req d.
               (\<forall>tok u. access_token req = Some tok \<and> tok \<noteq> []
                    \<and> jwt_verify e tok ACCESS_TOKEN_SECRET = Inr (Some (uid u))
                  \<longrightarrow> findById (users d) (Some (uid u)) \<noteq> Some u)
               \<longrightarrow> (\<exists>msg. run_chain (run_handler e other) hs req d
                            = (NextErr (ApiError 401 msg), d))))"
proof (intro conjI impI allI)
  show "VerifyJWT \<in> set hs \<longleftrightarrow> p \<notin> {[''register''], [''login''], [''refresh-token'']}"
    by (rule router_guarded_iff[OF assms])
next
  fix req :: request and d :: db
  assume g: "VerifyJWT \<in> set hs"
    and no: "\<forall>tok u. access_token req = Some tok \<and> tok \<noteq> []
                    \<and> jwt_verify e tok ACCESS_TOKEN_SECRET = Inr (Some (uid u))
                  \<longrightarrow> findById (users d) (Some (uid u)) \<noteq> Some u"
  from router_guarded_head[OF assms g] obtain rest where hs: "hs = VerifyJWT # rest" ..
  from verifyJWT_rejects[OF no] obtain msg where "verifyJWT e req d = Inl (ApiError 401 msg)" ..
  from guarded_chain_rejects[OF this] hs
  show "\<exists>msg. run_chain (run_handler e other) hs req d = (NextErr (ApiError 401 msg), d)"
    by blast
qed

theorem verifyJWT_guards_routes_witness:
  "(GET, [''history''], [VerifyJWT, GetWatchHistory]) \<in> set router
   \<and> access_token (bare GET [''history'']) = None
   \<and> (\<exists>msg. run_chain (run_handler sample_env sample_other) [VerifyJWT, GetWatchHistory]
               (bare GET [''history'']) sample_db = (NextErr (ApiError 401 msg), sample_db))"
proof -
  have r: "(GET, [''history''], [VerifyJWT, GetWatchHistory]) \<in> set router"
    by (simp add: router_def)
  have a: "access_token (bare GET [''history'']) = None"
    by (simp add: access_token_def bare_def js_defs)
  from verifyJWT_guards_routes[OF r, of sample_env sample_other] a
  have "\<exists>msg. run_chain (run_handler sample_env sample_other) [VerifyJWT, GetWatchHistory]
               (bare GET [''history'']) sample_db = (NextErr (ApiError 401 msg), sample_db)"
    by simp
  with r a show ?thesis by simp
qed

text \<open>
  Claim C6 as stated fails on the login route: the request below carries no access token
  and is answered with status 200.
\<close>

theorem verifyJWT_guards_counterexample:
  "access_token login_alice = None
   \<and> userRouter sample_env sample_other login_alice sample_db
       = (Sent \<lparr>status = 200,
             cookie = [(''accessToken'', ''at.alice'', options),
                       (''refreshToken'', ''rt.alice'', options)],
             clearCookie = [],
             json = ApiResponse 200 (DLogin (Some (select_user alice)) ''at.alice'' ''rt.alice'')
                      ''User logged In Successfully''\<rparr>, sample_db)"
proof -
  have a: "access_token login_alice = None"
    by (simp add: access_token_def request_defs bare_def js_defs)
  have m: "rmethod login_alice = POST" "rpath login_alice = [''login'']"
    by (simp_all add: request_defs bare_def)
  note lower = toLowerCase_def lower_char_def
  have h: "asyncHandler (controller (loginUser sample_env)) login_alice sample_db
          = (Sent \<lparr>status = 200,
             cookie = [(''accessToken'', ''at.alice'', options),
                       (''refreshToken'', ''rt.alice'', options)],
             clearCookie = [],
             json = ApiResponse 200 (DLogin (Some (select_user alice)) ''at.alice'' ''rt.alice'')
                      ''User logged In Successfully''\<rparr>, sample_db)"
    by (simp add: asyncHandler_def controller_def login_alice_accepted)
  show ?thesis
    by (simp add: a userRouter_def router_def m h lower)
qed

section \<open>Errors thrown by route handlers\<close>

text \<open>
  Applied to an error with a status code and a message, the error-handling middleware
  builds the JSON shape of the spec.
\<close>

lemma errorMiddleware_shape:
  assumes "code \<noteq> 0" and "msg \<noteq> []"
  shows "errorMiddleware (ApiError code msg)
           = ErrorJson code \<lparr>success = False, eb_message = msg, eb_statusCode = code\<rparr>"
  using assms by (simp add: errorMiddleware_def ApiError_def or_default_def)

text \<open>
  It is registered before the users router, so an error that leaves the router finds no
  error-handling layer after it.
\<close>

lemma route_error_skips_errorMiddleware:
  assumes "cors l req d = (Next req, d)" and "express_json l req d = (Next req, d)"
    and "express_urlencoded l req d = (Next req, d)" and "express_static l req d = (Next req, d)"
    and "cookieParser l req d = (Next req, d)"
    and "mount [''api'', ''v1'', ''users''] (userRouter e other) req d = (NextErr err, d')"
  shows "express_handle (app e l other) None req d = (FinalHandler (Some err), d')"
  using assms by (simp add: app_def)

lemma login_empty_body:
  "loginUser e (bare POST p) d = (Inl (ApiError 400 ''username or email is required''), d)"
  by (simp add: loginUser_def bare_def no_fields_def body_defs truthy_def)

lemma users_router_login_empty_body:
  "mount [''api'', ''v1'', ''users''] (userRouter e other)
     (bare POST [''api'', ''v1'', ''users'', ''login'']) d
     = (NextErr (ApiError 400 ''username or email is required''), d)"
proof -
  have b: "(bare POST [''api'', ''v1'', ''users'', ''login''])\<lparr>rpath := [''login'']\<rparr>
             = bare POST [''login'']"
    by (simp add: bare_def)
  have m: "rmethod (bare POST [''login'']) = POST" "rpath (bare POST [''login'']) = [''login'']"
    by (simp_all add: bare_def)
  have h: "asyncHandler (controller (loginUser e)) (bare POST [''login'']) d
          = (NextErr (ApiError 400 ''username or email is required''), d)"
    by (simp add: asyncHandler_def controller_def login_empty_body)
  have "userRouter e other (bare POST [''login'']) d
          = (NextErr (ApiError 400 ''username or email is required''), d)"
    by (simp add: userRouter_def router_def m h toLowerCase_def lower_char_def)
  moreover have "rpath (bare POST [''api'', ''v1'', ''users'', ''login''])
                   = [''api'', ''v1'', ''users'', ''login'']"
    by (simp add: bare_def)
  ultimately show ?thesis by (simp add: mount_def b)
qed

text \<open>
  Claim C7 at a failing input: a login request with an empty body.  \<open>loginUser\<close>
  throws the 400 error, \<open>asyncHandler\<close> passes it to \<open>next\<close>, and the
  application answers through the framework's final handler, not with the JSON that the
  error-handling middleware would build from the same error.
\<close>

theorem thrown_error_reaches_final_handler:
  "express_handle (app sample_env sample_libs sample_other) None
      (bare POST [''api'', ''v1'', ''users'', ''login'']) sample_db
     = (FinalHandler (Some (ApiError 400 ''username or email is required'')), sample_db)
   \<and> errorMiddleware (ApiError 400 ''username or email is required'')
     = ErrorJson 400 \<lparr>success = False, eb_message = ''username or email is required'',
                      eb_statusCode = 400\<rparr>"
proof -
  have "express_handle (app sample_env sample_libs sample_other) None
      (bare POST [''api'', ''v1'', ''users'', ''login'']) sample_db
     = (FinalHandler (Some (ApiError 400 ''username or email is required'')), sample_db)"
    by (rule route_error_skips_errorMiddleware)
       (simp_all add: sample_libs_def pass_def users_router_login_empty_body)
  then show ?thesis by (simp add: errorMiddleware_shape)
qed

section \<open>The order of the watch history\<close>

text \<open>
  The looked-up videos come in the order of the videos collection, whatever the order of
  the watch history.
\<close>

lemma lookup_in_collection_order:
  "map w_id (lookup_watchHistory d u)
     = filter (\<lambda>i. i \<in> set (watchHistory u)) (map vid (videos d))"
  by (simp add: lookup_watchHistory_def with_owner_def filter_map comp_def)

text \<open>
  Claim C8 at a failing input: the stored watch history is \<open>[20, 10]\<close>, and
  \<open>getWatchHistory\<close> answers with video 10 before video 20.
\<close>

theorem watch_history_in_collection_order:
  "watchHistory alice = [20, 10]
   \<and> getWatchHistory sample_env history_alice sample_db
       = (Inr \<lparr>status = 200, cookie = [], clearCookie = [],
               json = ApiResponse 200
                 (DVideos [\<lparr>w_id = 10, w_title = ''ten'',
                              w_owner = Some (project_owner bob)\<rparr>,
                           \<lparr>w_id = 20, w_title = ''twenty'',
                              w_owner = Some (project_owner alice)\<rparr>])
                 ''Watch history fetched successfully''\<rparr>, sample_db)"
  by (simp add: getWatchHistory_def lookup_watchHistory_def with_owner_def select_user_def
      request_defs sample_defs)

end
